theory Spec2Isabelle
  imports Main "HOL-Library.Word" "HOL-Library.AList"
begin

section \<open>JavaScript values\<close>

text \<open>
  The sources are JavaScript. A thrown exception and a rejected \<open>Async\<close> are both a
  value of type \<open>error\<close>; the three kinds below are the ones the sources can produce:
  a \<open>ZodError\<close> thrown by \<open>schema.parse\<close> (with the issues zod collected), a
  \<open>TypeError\<close> thrown when a property of \<open>undefined\<close> or \<open>null\<close> is read, and
  the rejection of a collaborator passed in through \<open>env\<close>.
\<close>

datatype pathelem = Key string | Idx nat

datatype issue = Issue (path: "pathelem list") (code: string) (message: string)

datatype error = ZodError "issue list" | TypeError string | EnvError string

text \<open>
  An object is a finite map from property names to values (the order of the keys is
  not modelled). A key can be present with the value \<open>undefined\<close>, which
  \<open>{...x, Id: undefined}\<close> produces: that is \<open>Some Undefined\<close>, an absent key is
  \<open>None\<close>. Numbers are the integers. \<open>Buffer\<close> is an \<open>ArrayBuffer\<close>, \<open>Readable\<close> a
  finished \<open>node:stream\<close> readable: the items it emits, or the error its generator threw
  before emitting any.
\<close>

datatype jsval =
    Undefined
  | Null
  | Bool bool
  | Num int
  | Str string
  | Arr "jsval list"
  | Obj "string \<Rightarrow> jsval option"
  | Buffer "8 word list"
  | Readable "error + jsval list"

type_synonym jsobj = "string \<Rightarrow> jsval option"

text \<open>\<open>!!v\<close>\<close>

fun truthy :: "jsval \<Rightarrow> bool" where
  "truthy Undefined = False"
| "truthy Null = False"
| "truthy (Bool b) = b"
| "truthy (Num n) = (n \<noteq> 0)"
| "truthy (Str s) = (s \<noteq> [])"
| "truthy _ = True"

text \<open>The decimal digits of a natural number, for \<open>String(n)\<close> and for array indices as keys.\<close>

fun digits :: "nat \<Rightarrow> string" where
  "digits n = (if n < 10 then [''0123456789'' ! n]
               else digits (n div 10) @ [''0123456789'' ! (n mod 10)])"

declare digits.simps [simp del]

text \<open>\<open>xs.join(',')\<close> on strings already converted.\<close>

fun join :: "string list \<Rightarrow> string" where
  "join [] = []"
| "join [s] = s"
| "join (s # t # ss) = s @ '','' @ join (t # ss)"

text \<open>
  \<open>String(v)\<close>, which a template literal \<open>`${v}`\<close> applies. An array joins its
  elements with commas, \<open>undefined\<close> and \<open>null\<close> elements giving the empty string.
\<close>

fun toStr :: "jsval \<Rightarrow> string" where
  "toStr Undefined = ''undefined''"
| "toStr Null = ''null''"
| "toStr (Bool b) = (if b then ''true'' else ''false'')"
| "toStr (Num i) = (if i < 0 then ''-'' @ digits (nat (- i)) else digits (nat i))"
| "toStr (Str s) = s"
| "toStr (Arr xs) =
     join (map (\<lambda>x. if x = Undefined \<or> x = Null then [] else toStr x) xs)"
| "toStr (Obj m) = ''[object Object]''"
| "toStr (Buffer b) = ''[object ArrayBuffer]''"
| "toStr (Readable r) = ''[object Object]''"

text \<open>
  The own enumerable properties of a value, which object spread \<open>{...v}\<close> and ramda's
  \<open>omit\<close> copy: those of an object, the indices of an array or of a string, none
  for the other values.
\<close>

definition indexed :: "jsval list \<Rightarrow> jsobj" where
  "indexed xs = map_of (map (\<lambda>i. (digits i, xs ! i)) [0 ..< length xs])"

fun own :: "jsval \<Rightarrow> jsobj" where
  "own (Obj m) = m"
| "own (Arr xs) = indexed xs"
| "own (Str s) = indexed (map (\<lambda>c. Str [c]) s)"
| "own _ = Map.empty"

text \<open>
  \<open>v.k\<close> and \<open>v[k]\<close> for the property names the sources read (none of them is
  \<open>length\<close> or an index): a \<open>TypeError\<close> on \<open>undefined\<close> and \<open>null\<close>, \<open>undefined\<close>
  for a missing property.
\<close>

definition lookup :: "jsobj \<Rightarrow> string \<Rightarrow> jsval" where
  "lookup m k = (case m k of None \<Rightarrow> Undefined | Some v \<Rightarrow> v)"

fun get :: "jsval \<Rightarrow> string \<Rightarrow> error + jsval" where
  "get Undefined k = Inl (TypeError (''Cannot read properties of undefined (reading '' @ k @ '')''))"
| "get Null k = Inl (TypeError (''Cannot read properties of null (reading '' @ k @ '')''))"
| "get (Obj m) k = Inr (lookup m k)"
| "get _ k = Inr Undefined"


text \<open>Sequencing of computations that can throw.\<close>

fun thenE :: "error + 'a \<Rightarrow> ('a \<Rightarrow> error + 'b) \<Rightarrow> error + 'b" where
  "thenE (Inl e) f = Inl e"
| "thenE (Inr x) f = f x"

section \<open>The zod schemas the sources use\<close>

text \<open>
  A schema is either an object schema \<open>z.object(shape)\<close> with its policy for keys that
  are not in the shape (\<open>strip\<close> is zod's default, \<open>.passthrough()\<close> and \<open>.strict()\<close>
  set the other two), or any other schema, given by what its parse does to a value.
\<close>

datatype unknownKeys = Strip | Passthrough | Strict

datatype zschema =
    ZLeaf "jsval \<Rightarrow> issue list + jsval"
  | ZObject "(string \<times> zschema) list" unknownKeys

text \<open>zod's name for the type of a value, used in its messages.\<close>

fun parsedType :: "jsval \<Rightarrow> string" where
  "parsedType Undefined = ''undefined''"
| "parsedType Null = ''null''"
| "parsedType (Bool b) = ''boolean''"
| "parsedType (Num n) = ''number''"
| "parsedType (Str s) = ''string''"
| "parsedType (Arr xs) = ''array''"
| "parsedType _ = ''object''"

definition invalid_type :: "string \<Rightarrow> jsval \<Rightarrow> issue" where
  "invalid_type expected v =
     Issue [] ''invalid_type''
       (if v = Undefined then ''Required''
        else ''Expected '' @ expected @ '', received '' @ parsedType v)"

fun under :: "pathelem \<Rightarrow> issue \<Rightarrow> issue" where
  "under p (Issue ps c m) = Issue (p # ps) c m"

text \<open>The issues of the fields of an object, each under its key.\<close>

fun field_issues :: "(string \<times> (issue list + jsval)) list \<Rightarrow> issue list" where
  "field_issues [] = []"
| "field_issues ((k, Inl is) # ps) = map (under (Key k)) is @ field_issues ps"
| "field_issues ((k, Inr v) # ps) = field_issues ps"

text \<open>\<open>.strict()\<close> reports the keys of the input that the shape does not have.\<close>

definition unknown_issues :: "unknownKeys \<Rightarrow> string list \<Rightarrow> jsobj \<Rightarrow> issue list" where
  "unknown_issues uk keys data =
     (if uk = Strict \<and> \<not> dom data \<subseteq> set keys
      then [Issue [] ''unrecognized_keys'' ''Unrecognized key(s) in object'']
      else [])"

text \<open>
  \<open>.passthrough()\<close> keeps the keys of the input that the shape does not have; zod sets a
  key of the result when its value is not \<open>undefined\<close>, and never a key \<open>__proto__\<close>.
\<close>

definition extras :: "unknownKeys \<Rightarrow> string list \<Rightarrow> jsobj \<Rightarrow> jsobj" where
  "extras uk keys data =
     (if uk = Passthrough
      then (\<lambda>k. if k \<in> set keys \<or> k = ''__proto__'' \<or> data k = Some Undefined then None
                else data k)
      else Map.empty)"

text \<open>
  The result object: a key of the shape is set when its parsed value is not
  \<open>undefined\<close> or when the input has the key, and never a key \<open>__proto__\<close>.
\<close>

fun mergeObject :: "(string \<times> (issue list + jsval)) list \<Rightarrow> jsobj \<Rightarrow> jsobj \<Rightarrow> jsobj" where
  "mergeObject [] data acc = acc"
| "mergeObject ((k, Inl is) # ps) data acc = mergeObject ps data acc"
| "mergeObject ((k, Inr v) # ps) data acc =
     mergeObject ps data
       (if k \<noteq> ''__proto__'' \<and> (v \<noteq> Undefined \<or> k \<in> dom data) then acc(k \<mapsto> v) else acc)"

text \<open>\<open>schema.safeParse(v)\<close>: the parsed value, or every issue found.\<close>

fun zparse :: "zschema \<Rightarrow> jsval \<Rightarrow> issue list + jsval"
  and zparse_fields :: "(string \<times> zschema) list \<Rightarrow> jsobj \<Rightarrow> (string \<times> (issue list + jsval)) list"
where
  "zparse (ZLeaf p) v = p v"
| "zparse (ZObject shape uk) v =
     (if parsedType v \<noteq> ''object'' then Inl [invalid_type ''object'' v]
      else
        let pairs = zparse_fields shape (own v);
            issues = field_issues pairs @ unknown_issues uk (map fst shape) (own v)
        in if issues = []
           then Inr (Obj (mergeObject pairs (own v) (extras uk (map fst shape) (own v))))
           else Inl issues)"
| "zparse_fields [] data = []"
| "zparse_fields ((k, sch) # rest) data =
     (k, zparse sch (lookup data k)) # zparse_fields rest data"

text \<open>\<open>schema.parse(v)\<close> throws a \<open>ZodError\<close> with the issues.\<close>

definition parse :: "zschema \<Rightarrow> jsval \<Rightarrow> error + jsval" where
  "parse sch v = (case zparse sch v of Inl is \<Rightarrow> Inl (ZodError is) | Inr v' \<Rightarrow> Inr v')"

definition z_undefined :: zschema where
  "z_undefined = ZLeaf (\<lambda>v. if v = Undefined then Inr v else Inl [invalid_type ''undefined'' v])"

definition z_any :: zschema where
  "z_any = ZLeaf Inr"

definition z_string :: zschema where
  "z_string = ZLeaf (\<lambda>v. case v of Str s \<Rightarrow> Inr v | _ \<Rightarrow> Inl [invalid_type ''string'' v])"



text \<open>\<open>z.array(element)\<close>: every element is parsed, the issues are under its index.\<close>

fun element_issues :: "nat \<Rightarrow> (issue list + jsval) list \<Rightarrow> issue list" where
  "element_issues i [] = []"
| "element_issues i (Inl is # rs) = map (under (Idx i)) is @ element_issues (Suc i) rs"
| "element_issues i (Inr v # rs) = element_issues (Suc i) rs"

fun parsed :: "(issue list + jsval) list \<Rightarrow> jsval list" where
  "parsed [] = []"
| "parsed (Inl is # rs) = parsed rs"
| "parsed (Inr v # rs) = v # parsed rs"

definition z_array :: "zschema \<Rightarrow> zschema" where
  "z_array element =
     ZLeaf (\<lambda>v. case v of
                  Arr xs \<Rightarrow>
                    let rs = map (zparse element) xs
                    in if element_issues 0 rs = [] then Inr (Arr (parsed rs))
                       else Inl (element_issues 0 rs)
                | _ \<Rightarrow> Inl [invalid_type ''array'' v])"

definition z_object :: "(string \<times> zschema) list \<Rightarrow> zschema" where
  "z_object shape = ZObject shape Strip"

text \<open>
  \<open>schema.extend(augmentation)\<close> and \<open>schema.shape.k\<close> exist on object schemas only:
  on another schema the call is a \<open>TypeError\<close> when the module is loaded, here
  \<open>None\<close>. A key of the augmentation replaces the schema of that key or is added.
\<close>

fun extendSchema :: "zschema \<Rightarrow> (string \<times> zschema) list \<Rightarrow> zschema option" where
  "extendSchema (ZObject shape uk) augmentation =
     Some (ZObject (fold (\<lambda>(k, sch). AList.update k sch) augmentation shape) uk)"
| "extendSchema (ZLeaf p) augmentation = None"

fun shape :: "zschema \<Rightarrow> string \<Rightarrow> zschema option" where
  "shape (ZObject sh uk) k = map_of sh k"
| "shape (ZLeaf p) k = None"


section \<open>Asynchronous pipelines\<close>

text \<open>
  The calls a pipeline makes to its collaborators, in order, each with its argument and
  with what it settled to.
\<close>

datatype call =
    is_LoadMessageMeta: LoadMessageMeta jsval "error + jsval"
  | is_ReadState: ReadState jsval "error + jsval"
  | is_LoadModule: LoadModule jsval "error + jsval"
  | is_Evaluate: Evaluate jsval "error + jsval"
  | is_LoadTransactionMeta: LoadTransactionMeta jsval "error + jsval"
  | is_LoadTransactionData: LoadTransactionData jsval "error + (error + jsval)"

text \<open>
  A hyper-async \<open>Async\<close> run from a state \<open>'s\<close> of the world outside (stores, caches):
  it resolves (\<open>Inr\<close>) or rejects (\<open>Inl\<close>), has made some calls, and leaves a state. An
  exception thrown in a callback of \<open>map\<close> or \<open>chain\<close> rejects the pipeline.
\<close>

type_synonym ('a, 's) async = "'s \<Rightarrow> (error + 'a) \<times> call list \<times> 's"

definition Resolved :: "'a \<Rightarrow> ('a, 's) async" where
  "Resolved x = (\<lambda>s. (Inr x, [], s))"

text \<open>hyper-async's \<open>of\<close>\<close>

definition Async_of :: "'a \<Rightarrow> ('a, 's) async" where
  "Async_of x = (\<lambda>s. (Inr x, [], s))"


definition chain :: "('a, 's) async \<Rightarrow> ('a \<Rightarrow> error + ('b, 's) async) \<Rightarrow> ('b, 's) async" where
  "chain m f = (\<lambda>s.
     case m s of
       (Inl e, tr, s') \<Rightarrow> (Inl e, tr, s')
     | (Inr x, tr, s') \<Rightarrow>
         (case f x of
            Inl e \<Rightarrow> (Inl e, tr, s')
          | Inr m' \<Rightarrow> (case m' s' of (r, tr', s'') \<Rightarrow> (r, tr @ tr', s''))))"

definition map_async :: "('a, 's) async \<Rightarrow> ('a \<Rightarrow> error + 'b) \<Rightarrow> ('b, 's) async" where
  "map_async m f = (\<lambda>s.
     case m s of
       (Inl e, tr, s') \<Rightarrow> (Inl e, tr, s')
     | (Inr x, tr, s') \<Rightarrow> (f x, tr, s'))"

text \<open>A collaborator from \<open>env\<close>, called with \<open>x\<close>; the call is recorded.\<close>

definition invoke ::
  "(jsval \<Rightarrow> error + 'a \<Rightarrow> call) \<Rightarrow> (jsval \<Rightarrow> 's \<Rightarrow> (error + 'a) \<times> 's) \<Rightarrow> jsval
     \<Rightarrow> ('a, 's) async" where
  "invoke c f x = (\<lambda>s. case f x s of (r, s') \<Rightarrow> (r, [c x r], s'))"


section \<open>The ramda functions the sources use\<close>

text \<open>\<open>prop(k, v)\<close> is \<open>undefined\<close> on \<open>undefined\<close> and \<open>null\<close>, else \<open>v[k]\<close>.\<close>

definition propOf :: "string \<Rightarrow> jsval \<Rightarrow> jsval" where
  "propOf k v = (case get v k of Inl e \<Rightarrow> Undefined | Inr x \<Rightarrow> x)"

fun path :: "string list \<Rightarrow> jsval \<Rightarrow> jsval" where
  "path [] v = v"
| "path (k # ks) v = (if v = Undefined \<or> v = Null then Undefined else path ks (propOf k v))"

text \<open>
  \<open>omit(names, v)\<close> makes a new object and assigns to it, by \<open>result[k] = v[k]\<close>, every
  property of \<open>v\<close> that is not in \<open>names\<close>. Assigning to \<open>__proto__\<close> sets no
  property: a value that is an object or \<open>null\<close> becomes the prototype of the new
  object, any other value is ignored. So the new object is given by its own properties
  and by the prototype it got, if it got one.
\<close>

record omitted =
  properties :: jsobj
  prototype :: "jsval option"

definition omit :: "string list \<Rightarrow> jsval \<Rightarrow> omitted" where
  "omit names v =
     \<lparr> properties = (\<lambda>k. if k \<in> set names \<or> k = ''__proto__'' then None else own v k),
       prototype =
         (case own v ''__proto__'' of
            None \<Rightarrow> None
          | Some p \<Rightarrow>
              if p = Null \<or> parsedType p = ''object'' \<or> parsedType p = ''array''
              then Some p else None) \<rparr>"






section \<open>servers/cu/src/domain/dryRun.js\<close>

text \<open>
  \<open>dryRunMessageSchema\<close>: \<open>messageSchema\<close>, of \<open>model.js\<close>, is a parameter. Its
  \<open>message\<close> is extended with \<open>Id\<close>, \<open>Owner\<close> and \<open>From\<close> all \<open>z.undefined()\<close>.
\<close>

definition dryRunMessageSchema :: "zschema \<Rightarrow> zschema option" where
  "dryRunMessageSchema messageSchema =
     Option.bind (shape messageSchema ''message'') (\<lambda>message.
     Option.bind (extendSchema message
                    [(''Id'', z_undefined), (''Owner'', z_undefined), (''From'', z_undefined)])
       (\<lambda>message'. extendSchema messageSchema [(''message'', message')]))"

text \<open>
  The collaborators that \<open>dryRunWith\<close> builds from \<open>env\<close> with \<open>loadMessageMetaWith\<close>,
  \<open>loadModuleWith\<close>, \<open>readStateWith\<close> and \<open>evaluateWith\<close> (other modules) are
  parameters: each takes its argument and the state, and resolves or rejects.
\<close>

record 's dryRunEnv =
  loadMessageMeta :: "jsval \<Rightarrow> 's \<Rightarrow> (error + jsval) \<times> 's"
  loadModule :: "jsval \<Rightarrow> 's \<Rightarrow> (error + jsval) \<times> 's"
  readState :: "jsval \<Rightarrow> 's \<Rightarrow> (error + jsval) \<times> 's"
  evaluate :: "jsval \<Rightarrow> 's \<Rightarrow> (error + jsval) \<times> 's"

text \<open>The argument \<open>{ processId, messageTxId, dryRun }\<close>; an absent field is \<open>undefined\<close>.\<close>

record args =
  processId :: jsval
  messageTxId :: jsval
  dryRun :: jsval

text \<open>The object that the generator \<open>dryRunMessage\<close> hands to the schema.\<close>

definition dryRunMessageInput :: "jsval \<Rightarrow> jsval \<Rightarrow> jsval \<Rightarrow> error + jsval" where
  "dryRunMessageInput pid payload readStateRes =
     thenE (get readStateRes ''ordinate'') (\<lambda>ordinate.
     thenE (get readStateRes ''from'') (\<lambda>fromv.
     thenE (get readStateRes ''fromBlockHeight'') (\<lambda>fromBlockHeight.
     thenE (get readStateRes ''owner'') (\<lambda>owner.
     thenE (get readStateRes ''tags'') (\<lambda>tags.
       Inr (Obj [
         ''noSave'' \<mapsto> Bool True,
         ''deepHash'' \<mapsto> Undefined,
         ''cron'' \<mapsto> Undefined,
         ''ordinate'' \<mapsto> ordinate,
         ''name'' \<mapsto> Str ''Dry Run Message'',
         ''message'' \<mapsto> Obj ((own payload)(
            ''Id'' \<mapsto> Undefined,
            ''Owner'' \<mapsto> Undefined,
            ''From'' \<mapsto> Undefined,
            ''Target'' \<mapsto> pid,
            ''Timestamp'' \<mapsto> fromv,
            ''Block-Height'' \<mapsto> fromBlockHeight,
            ''Cron'' \<mapsto> Bool False,
            ''Read-Only'' \<mapsto> Bool True)),
         ''AoGlobal'' \<mapsto> Obj [
            ''Process'' \<mapsto> Obj [''Id'' \<mapsto> pid, ''Owner'' \<mapsto> owner, ''Tags'' \<mapsto> tags]]]))))))"

text \<open>
  The generator \<open>dryRunMessage\<close>, run to its end when the stream is read: it yields the
  parsed message once, or throws what \<open>parse\<close> threw.
\<close>

definition dryRunMessage :: "zschema \<Rightarrow> jsval \<Rightarrow> jsval \<Rightarrow> jsval \<Rightarrow> error + jsval list" where
  "dryRunMessage schema pid payload readStateRes =
     thenE (dryRunMessageInput pid payload readStateRes) (\<lambda>input.
     thenE (parse schema input) (\<lambda>message. Inr [message]))"

text \<open>
  The first callback (lines 51 to 67): with a \<open>messageTxId\<close>, the metadata of that
  message; without, an object with \<open>to\<close> and \<open>ordinate\<close> undefined.
\<close>

definition resolvePoint :: "'s dryRunEnv \<Rightarrow> args \<Rightarrow> jsval \<Rightarrow> error + (jsval, 's) async" where
  "resolvePoint env a x =
     thenE (get x ''messageTxId'') (\<lambda>messageTxId.
       Inr (if truthy messageTxId
            then invoke LoadMessageMeta (loadMessageMeta env)
                   (Obj [''processId'' \<mapsto> processId a, ''messageTxId'' \<mapsto> messageTxId])
            else Resolved
                   (Obj [''processId'' \<mapsto> processId a,
                         ''to'' \<mapsto> Undefined,
                         ''ordinate'' \<mapsto> Undefined])))"

text \<open>The second callback (lines 71 to 91) calls \<open>readState\<close>.\<close>

definition readUpTo :: "'s dryRunEnv \<Rightarrow> jsval \<Rightarrow> error + (jsval, 's) async" where
  "readUpTo env res =
     thenE (get res ''processId'') (\<lambda>pid.
     thenE (get res ''timestamp'') (\<lambda>timestamp.
     thenE (get res ''nonce'') (\<lambda>nonce.
       Inr (invoke ReadState (readState env)
              (Obj [''processId'' \<mapsto> pid,
                    ''to'' \<mapsto> timestamp,
                    ''ordinate'' \<mapsto> Str (toStr nonce),
                    ''cron'' \<mapsto> Undefined,
                    ''exact'' \<mapsto> Bool True])))))"

text \<open>Lines 99 to 116: the module is loaded when \<open>ctx.module\<close> is not set.\<close>

definition ensureModule :: "'s dryRunEnv \<Rightarrow> jsval \<Rightarrow> error + (jsval, 's) async" where
  "ensureModule env ctx =
     thenE (get ctx ''module'') (\<lambda>module.
       Inr (if \<not> truthy module then invoke LoadModule (loadModule env) ctx
            else Resolved ctx))"

text \<open>Lines 117 to 157: \<open>evaluate\<close> gets \<open>ctx\<close> with the stream of the one message.\<close>

definition evaluateDryRun ::
  "zschema \<Rightarrow> 's dryRunEnv \<Rightarrow> args \<Rightarrow> jsval \<Rightarrow> jsval \<Rightarrow> error + (jsval, 's) async" where
  "evaluateDryRun schema env a readStateRes ctx =
     Inr (invoke Evaluate (evaluate env)
            (Obj ((own ctx)(''messages'' \<mapsto>
               Readable (dryRunMessage schema (processId a) (dryRun a) readStateRes)))))"

definition dryRunWith :: "zschema \<Rightarrow> 's dryRunEnv \<Rightarrow> args \<Rightarrow> (omitted, 's) async" where
  "dryRunWith schema env a =
     map_async
       (map_async
          (chain
             (chain
                (chain (Async_of (Obj [''messageTxId'' \<mapsto> messageTxId a]))
                   (resolvePoint env a))
                (readUpTo env))
             (\<lambda>readStateRes.
                Inr (chain
                       (chain (Async_of readStateRes) (ensureModule env))
                       (evaluateDryRun schema env a readStateRes))))
          (\<lambda>res. get res ''output''))
       (\<lambda>output. Inr (omit [''Memory''] output))"

section \<open>sdk/src/lib/readState/load-src.js\<close>

definition transactionSchema :: zschema where
  "transactionSchema =
     z_object [
       (''owner'', z_object [(''address'', z_string)]),
       (''tags'', z_array (z_object [(''name'', z_string), (''value'', z_string)]))]"










text \<open>
  The values that name the calls of a run: what \<open>loadMessageMeta\<close>, \<open>readState\<close> and
  \<open>evaluate\<close> are called with.
\<close>

abbreviation nullish :: "jsval \<Rightarrow> bool" where
  "nullish v \<equiv> v = Undefined \<or> v = Null"

abbreviation messageMetaArg :: "args \<Rightarrow> jsval" where
  "messageMetaArg a \<equiv> Obj [''processId'' \<mapsto> processId a, ''messageTxId'' \<mapsto> messageTxId a]"

abbreviation readStateArg :: "jsval \<Rightarrow> jsval" where
  "readStateArg res \<equiv>
     Obj [''processId'' \<mapsto> propOf ''processId'' res,
          ''to'' \<mapsto> propOf ''timestamp'' res,
          ''ordinate'' \<mapsto> Str (toStr (propOf ''nonce'' res)),
          ''cron'' \<mapsto> Undefined,
          ''exact'' \<mapsto> Bool True]"

abbreviation evaluateArg :: "zschema \<Rightarrow> args \<Rightarrow> jsval \<Rightarrow> jsval \<Rightarrow> jsval" where
  "evaluateArg schema a rs ctx \<equiv>
     Obj ((own ctx)(''messages'' \<mapsto> Readable (dryRunMessage schema (processId a) (dryRun a) rs)))"

abbreviation front :: "'s dryRunEnv \<Rightarrow> args \<Rightarrow> (jsval, 's) async" where
  "front env a \<equiv>
     chain (chain (Async_of (Obj [''messageTxId'' \<mapsto> messageTxId a])) (resolvePoint env a))
       (readUpTo env)"

abbreviation tail :: "zschema \<Rightarrow> 's dryRunEnv \<Rightarrow> args \<Rightarrow> jsval \<Rightarrow> (jsval, 's) async" where
  "tail schema env a rs \<equiv>
     chain (chain (Async_of rs) (ensureModule env)) (evaluateDryRun schema env a rs)"


subsection \<open>The collaborators of \<open>dryRun\<close>, as the specification describes them\<close>






subsection \<open>Transaction metadata\<close>

text \<open>
  The metadata that \<open>transactionSchema\<close> accepts, written from the owner's address and
  the tags in their order; \<open>lastTag\<close> is the value of the last tag with a name.
\<close>

definition tagObj :: "string \<times> string \<Rightarrow> jsval" where
  "tagObj t = Obj [''name'' \<mapsto> Str (fst t), ''value'' \<mapsto> Str (snd t)]"

definition txMeta :: "string \<Rightarrow> (string \<times> string) list \<Rightarrow> jsval" where
  "txMeta address tags =
     Obj [''owner'' \<mapsto> Obj [''address'' \<mapsto> Str address], ''tags'' \<mapsto> Arr (map tagObj tags)]"


section \<open>servers/mu-legacy/src/domain/index.js\<close>

text \<open>
  The module wires the operations of the Messenger Unit from what it imports: the
  configuration, the logger, the clients and the four factories of \<open>lib/main.js\<close>.
  The imports are parameters, their values are of a type \<open>'v\<close>, and an object literal
  is the list of its properties.
\<close>

record 'v imported =
  config_sequencerUrl :: 'v
  createLogger :: "string \<Rightarrow> 'v"
  pouchDb :: "string \<Rightarrow> 'v"
  findLatestTxWith :: "(string \<times> 'v) list \<Rightarrow> 'v"
  saveTxWith :: "(string \<times> 'v) list \<Rightarrow> 'v"
  saveMsgWith :: "(string \<times> 'v) list \<Rightarrow> 'v"
  saveSpawnWith :: "(string \<times> 'v) list \<Rightarrow> 'v"
  updateMsgWith :: "(string \<times> 'v) list \<Rightarrow> 'v"
  findLatestMsgsWith :: "(string \<times> 'v) list \<Rightarrow> 'v"
  findLatestSpawnsWith :: "(string \<times> 'v) list \<Rightarrow> 'v"
  cu_selectNode :: 'v
  cu_result :: 'v
  findTxWith :: "(string \<times> 'v) list \<Rightarrow> 'v"
  writeInteractionWith :: "(string \<times> 'v) list \<Rightarrow> 'v"
  buildAndSignWith :: "(string \<times> 'v) list \<Rightarrow> 'v"
  writeContractTxWith :: "(string \<times> 'v) list \<Rightarrow> 'v"
  initMsgsWith :: "(string \<times> 'v) list \<Rightarrow> 'v"
  processMsgWith :: "(string \<times> 'v) list \<Rightarrow> 'v"
  crankMsgsWith :: "(string \<times> 'v) list \<Rightarrow> 'v"
  processSpawnWith :: "(string \<times> 'v) list \<Rightarrow> 'v"

definition logger :: "'v imported \<Rightarrow> 'v" where
  "logger I = createLogger I ''@permaweb/ao/servers/mu''"

definition dbInstance :: "'v imported \<Rightarrow> 'v" where
  "dbInstance I = pouchDb I ''ao-cache''"

definition SEQUENCER_URL :: "'v imported \<Rightarrow> 'v" where
  "SEQUENCER_URL I = config_sequencerUrl I"

definition initMsgs :: "'v imported \<Rightarrow> 'v" where
  "initMsgs I =
     initMsgsWith I [
       (''selectNode'', cu_selectNode I),
       (''findLatestCacheTx'', findLatestTxWith I [(''pouchDb'', dbInstance I)]),
       (''cacheTx'', saveTxWith I [(''pouchDb'', dbInstance I), (''logger'', logger I)]),
       (''findSequencerTx'', findTxWith I [(''SEQUENCER_URL'', SEQUENCER_URL I)]),
       (''writeSequencerTx'', writeInteractionWith I [(''SEQUENCER_URL'', SEQUENCER_URL I)]),
       (''fetchResult'', cu_result I),
       (''saveMsg'', saveMsgWith I [(''pouchDb'', dbInstance I), (''logger'', logger I)]),
       (''saveSpawn'', saveSpawnWith I [(''pouchDb'', dbInstance I), (''logger'', logger I)]),
       (''findLatestMsgs'',
          findLatestMsgsWith I [(''pouchDb'', dbInstance I), (''logger'', logger I)]),
       (''findLatestSpawns'',
          findLatestSpawnsWith I [(''pouchDb'', dbInstance I), (''logger'', logger I)]),
       (''logger'', logger I)]"

definition processMsg :: "'v imported \<Rightarrow> 'v" where
  "processMsg I =
     processMsgWith I [
       (''selectNode'', cu_selectNode I),
       (''findLatestCacheTx'', findLatestTxWith I [(''pouchDb'', dbInstance I)]),
       (''cacheTx'', saveTxWith I [(''pouchDb'', dbInstance I), (''logger'', logger I)]),
       (''findSequencerTx'', findTxWith I [(''SEQUENCER_URL'', SEQUENCER_URL I)]),
       (''writeSequencerTx'', writeInteractionWith I [(''SEQUENCER_URL'', SEQUENCER_URL I)]),
       (''buildAndSign'', buildAndSignWith I []),
       (''fetchResult'', cu_result I),
       (''saveMsg'', saveMsgWith I [(''pouchDb'', dbInstance I), (''logger'', logger I)]),
       (''saveSpawn'', saveSpawnWith I [(''pouchDb'', dbInstance I), (''logger'', logger I)]),
       (''updateMsg'', updateMsgWith I [(''pouchDb'', dbInstance I), (''logger'', logger I)]),
       (''findLatestMsgs'',
          findLatestMsgsWith I [(''pouchDb'', dbInstance I), (''logger'', logger I)]),
       (''findLatestSpawns'',
          findLatestSpawnsWith I [(''pouchDb'', dbInstance I), (''logger'', logger I)]),
       (''logger'', logger I)]"

definition processSpawn :: "'v imported \<Rightarrow> 'v" where
  "processSpawn I =
     processSpawnWith I [
       (''logger'', logger I),
       (''writeContractTx'', writeContractTxWith I [(''SEQUENCER_URL'', SEQUENCER_URL I)])]"

definition crankMsgs :: "'v imported \<Rightarrow> 'v" where
  "crankMsgs I =
     crankMsgsWith I [
       (''processMsg'', processMsg I),
       (''processSpawn'', processSpawn I),
       (''logger'', logger I)]"

text \<open>What the module exports: its two \<open>export const\<close> declarations.\<close>

definition exports :: "'v imported \<Rightarrow> (string \<Rightarrow> 'v option)" where
  "exports I = [''initMsgs'' \<mapsto> initMsgs I, ''crankMsgs'' \<mapsto> crankMsgs I]"


section \<open>Concrete inputs\<close>

text \<open>
  A \<open>messageSchema\<close> with the fields that \<open>dryRun\<close> sets, and the schema that
  \<open>dryRunMessageSchema\<close> makes of it.
\<close>

definition exampleMessageSchema :: zschema where
  "exampleMessageSchema =
     z_object [
       (''noSave'', z_any),
       (''ordinate'', z_any),
       (''name'', z_string),
       (''message'', z_object [
          (''Id'', z_string), (''Owner'', z_string), (''From'', z_string),
          (''Target'', z_string), (''Timestamp'', z_any), (''Block-Height'', z_any),
          (''Cron'', z_any), (''Read-Only'', z_any), (''Data'', z_any)]),
       (''AoGlobal'', z_any)]"

definition exampleSchema :: zschema where
  "exampleSchema =
     ZObject [
       (''noSave'', z_any),
       (''ordinate'', z_any),
       (''name'', z_string),
       (''message'', ZObject [
          (''Id'', z_undefined), (''Owner'', z_undefined), (''From'', z_undefined),
          (''Target'', z_string), (''Timestamp'', z_any), (''Block-Height'', z_any),
          (''Cron'', z_any), (''Read-Only'', z_any), (''Data'', z_any)] Strip),
       (''AoGlobal'', z_any)] Strip"

text \<open>
  Collaborators over a state that is the list of the messages saved so far. \<open>readState\<close>
  shows them in its output, \<open>evaluate\<close> saves every message that is not flagged
  \<open>noSave\<close>, and neither result carries a module.
\<close>

definition exampleReadStateRes :: "jsval list \<Rightarrow> jsval" where
  "exampleReadStateRes s =
     Obj [''ordinate'' \<mapsto> Str ''8'', ''from'' \<mapsto> Num 1700, ''fromBlockHeight'' \<mapsto> Num 12,
          ''owner'' \<mapsto> Str ''owner'', ''tags'' \<mapsto> Arr [],
          ''output'' \<mapsto> Obj [''Memory'' \<mapsto> Arr s]]"

definition exampleEvaluate :: "jsval \<Rightarrow> jsval list \<Rightarrow> (error + jsval) \<times> jsval list" where
  "exampleEvaluate ctx s =
     (case propOf ''messages'' ctx of
        Readable (Inr ms) \<Rightarrow>
          (Inr (Obj [''output'' \<mapsto> Obj [''Memory'' \<mapsto> Arr (s @ ms), ''Messages'' \<mapsto> Arr ms]]),
           s @ filter (\<lambda>m. propOf ''noSave'' m \<noteq> Bool True) ms)
      | Readable (Inl e) \<Rightarrow> (Inl e, s)
      | _ \<Rightarrow> (Inl (TypeError ''messages is not a stream''), s))"

definition exampleEnv :: "jsval list dryRunEnv" where
  "exampleEnv =
     \<lparr> loadMessageMeta = (\<lambda>x s.
          (Inr (Obj [''processId'' \<mapsto> propOf ''processId'' x, ''timestamp'' \<mapsto> Num 1700,
                     ''nonce'' \<mapsto> Num 8]), s)),
       loadModule = (\<lambda>ctx s. (Inr (Obj ((own ctx)(''module'' \<mapsto> Str ''wasm''))), s)),
       readState = (\<lambda>x s. (Inr (exampleReadStateRes s), s)),
       evaluate = exampleEvaluate \<rparr>"

text \<open>A call without \<open>messageTxId\<close> whose payload sets \<open>Id\<close> and \<open>Owner\<close>.\<close>

definition examplePayload :: jsval where
  "examplePayload =
     Obj [''Id'' \<mapsto> Str ''forged'', ''Owner'' \<mapsto> Str ''someone'', ''Data'' \<mapsto> Str ''ping'']"

definition exampleArgs :: args where
  "exampleArgs =
     \<lparr> processId = Str ''process-1'', messageTxId = Undefined, dryRun = examplePayload \<rparr>"












text \<open>Imports whose values are strings.\<close>

definition exampleImports :: "string imported" where
  "exampleImports =
     \<lparr> config_sequencerUrl = ''https://su'',
       createLogger = (\<lambda>n. ''logger''),
       pouchDb = (\<lambda>n. ''db''),
       findLatestTxWith = (\<lambda>e. ''findLatestTx''),
       saveTxWith = (\<lambda>e. ''saveTx''),
       saveMsgWith = (\<lambda>e. ''saveMsg''),
       saveSpawnWith = (\<lambda>e. ''saveSpawn''),
       updateMsgWith = (\<lambda>e. ''updateMsg''),
       findLatestMsgsWith = (\<lambda>e. ''findLatestMsgs''),
       findLatestSpawnsWith = (\<lambda>e. ''findLatestSpawns''),
       cu_selectNode = ''selectNode'',
       cu_result = ''result'',
       findTxWith = (\<lambda>e. ''findTx''),
       writeInteractionWith = (\<lambda>e. ''writeInteraction''),
       buildAndSignWith = (\<lambda>e. ''buildAndSign''),
       writeContractTxWith = (\<lambda>e. ''writeContractTx''),
       initMsgsWith = (\<lambda>e. ''initMsgs:'' @ join (map fst e)),
       processMsgWith = (\<lambda>e. ''processMsg:'' @ join (map fst e)),
       crankMsgsWith = (\<lambda>e. ''crankMsgs:'' @ join (map snd e)),
       processSpawnWith = (\<lambda>e. ''processSpawn:'' @ join (map fst e)) \<rparr>"

section \<open>The runs of \<open>dryRun\<close>\<close>

lemma propOf_Obj: "propOf k (Obj m) = lookup m k"
  by (simp add: propOf_def)

lemma readUpTo_run:
  "readUpTo env res =
     (case get res ''processId'' of
        Inl e \<Rightarrow> Inl e
      | Inr pid \<Rightarrow> Inr (invoke ReadState (readState env) (readStateArg res)))"
  by (cases res) (simp_all add: readUpTo_def propOf_def)

text \<open>
  Up to \<open>readState\<close>: with a \<open>messageTxId\<close> the metadata is looked up and \<open>readState\<close>
  gets the point it gives; without, \<open>readState\<close> gets \<open>to\<close> undefined and the
  ordinate \<open>'undefined'\<close>, the string that the template literal makes of the missing
  \<open>nonce\<close>.
\<close>

lemma front_run:
  "front env a s =
   (if truthy (messageTxId a)
    then (case loadMessageMeta env (messageMetaArg a) s of
            (Inl e, s1) \<Rightarrow> (Inl e, [LoadMessageMeta (messageMetaArg a) (Inl e)], s1)
          | (Inr res, s1) \<Rightarrow>
              (case get res ''processId'' of
                 Inl e \<Rightarrow> (Inl e, [LoadMessageMeta (messageMetaArg a) (Inr res)], s1)
               | Inr pid \<Rightarrow>
                   (case readState env (readStateArg res) s1 of
                      (r, s2) \<Rightarrow>
                        (r, [LoadMessageMeta (messageMetaArg a) (Inr res),
                             ReadState (readStateArg res) r], s2))))
    else (case readState env
                 (Obj [''processId'' \<mapsto> processId a, ''to'' \<mapsto> Undefined,
                       ''ordinate'' \<mapsto> Str ''undefined'', ''cron'' \<mapsto> Undefined,
                       ''exact'' \<mapsto> Bool True]) s of
            (r, s1) \<Rightarrow> (r, [ReadState
                 (Obj [''processId'' \<mapsto> processId a, ''to'' \<mapsto> Undefined,
                       ''ordinate'' \<mapsto> Str ''undefined'', ''cron'' \<mapsto> Undefined,
                       ''exact'' \<mapsto> Bool True]) r], s1)))"
  by (simp add: chain_def Async_of_def resolvePoint_def lookup_def invoke_def Resolved_def
        readUpTo_run propOf_Obj split: sum.splits prod.splits)

text \<open>From the result \<open>rs\<close> of \<open>readState\<close> on.\<close>

lemma tail_run:
  "tail schema env a rs s =
   (case get rs ''module'' of
      Inl e \<Rightarrow> (Inl e, [], s)
    | Inr m \<Rightarrow>
        if truthy m
        then (case evaluate env (evaluateArg schema a rs rs) s of
                (r, s') \<Rightarrow> (r, [Evaluate (evaluateArg schema a rs rs) r], s'))
        else (case loadModule env rs s of
                (Inl e, s1) \<Rightarrow> (Inl e, [LoadModule rs (Inl e)], s1)
              | (Inr ctx, s1) \<Rightarrow>
                  (case evaluate env (evaluateArg schema a rs ctx) s1 of
                     (r, s') \<Rightarrow> (r, [LoadModule rs (Inr ctx),
                                     Evaluate (evaluateArg schema a rs ctx) r], s'))))"
  by (simp add: chain_def Async_of_def ensureModule_def Resolved_def evaluateDryRun_def
        invoke_def split: sum.splits prod.splits)

lemma dryRunWith_run:
  "dryRunWith schema env a s =
     (case front env a s of
        (Inl e, tA, s1) \<Rightarrow> (Inl e, tA, s1)
      | (Inr rs, tA, s1) \<Rightarrow>
          (case tail schema env a rs s1 of
             (r, tB, s2) \<Rightarrow>
               (thenE r (\<lambda>res. thenE (get res ''output'') (\<lambda>out. Inr (omit [''Memory''] out))),
                tA @ tB, s2)))"
  unfolding dryRunWith_def
  by (simp add: map_async_def chain_def [of "front env a"] split: sum.splits prod.splits)

lemma front_trace:
  assumes "front env a s = (y, tA, s1)"
  shows "(\<forall>c \<in> set tA. is_LoadMessageMeta c \<or> is_ReadState c)
       \<and> (\<forall>x r. ReadState x r \<in> set tA \<longrightarrow> r = y)
       \<and> length (filter is_ReadState tA) \<le> 1"
  using assms unfolding front_run
  by (auto split: if_splits sum.splits prod.splits)

lemma tail_trace:
  assumes "tail schema env a rs s = (r, tB, s')"
  shows "\<forall>c \<in> set tB. is_LoadModule c \<or> is_Evaluate c"
  using assms unfolding tail_run
  by (auto split: if_splits sum.splits prod.splits)

text \<open>
  A run in which \<open>readState\<close> resolved to \<open>rs\<close>: the calls before it, the call itself,
  and what follows from \<open>rs\<close>.
\<close>

lemma run_after_readState:
  assumes run: "dryRunWith schema env a s = (r, tr, s')"
    and rs: "ReadState x (Inr rs) \<in> set tr"
  obtains tA s1 r' tB where
    "front env a s = (Inr rs, tA, s1)"
    "tail schema env a rs s1 = (r', tB, s')"
    "tr = tA @ tB"
    "r = thenE r' (\<lambda>res. thenE (get res ''output'') (\<lambda>out. Inr (omit [''Memory''] out)))"
    "\<forall>c \<in> set tA. is_LoadMessageMeta c \<or> is_ReadState c"
proof -
  obtain y tA s1 where f: "front env a s = (y, tA, s1)"
    by (cases "front env a s")
  note ft = front_trace [OF f]
  show ?thesis
  proof (cases y)
    case (Inl e)
    with run f have "tr = tA" by (simp add: dryRunWith_run)
    with rs ft Inl show ?thesis by auto
  next
    case (Inr rs')
    obtain r' tB s2 where t: "tail schema env a rs' s1 = (r', tB, s2)"
      by (cases "tail schema env a rs' s1")
    with run f Inr have tr: "tr = tA @ tB" and s2: "s2 = s'"
      and r: "r = thenE r' (\<lambda>res. thenE (get res ''output'') (\<lambda>out. Inr (omit [''Memory''] out)))"
      by (auto simp add: dryRunWith_run)
    from tail_trace [OF t] have "\<forall>c \<in> set tB. \<not> is_ReadState c" by auto
    with rs tr have "ReadState x (Inr rs) \<in> set tA" by auto
    with ft Inr have eq: "rs' = rs" by auto
    from ft have calls: "\<forall>c \<in> set tA. is_LoadMessageMeta c \<or> is_ReadState c"
      by blast
    from f t tr r calls show ?thesis
      unfolding Inr eq s2 by (rule that)
  qed
qed


text \<open>The run on the concrete inputs: three calls.\<close>

lemma exampleSchema: "dryRunMessageSchema exampleMessageSchema = Some exampleSchema"
  by (simp add: dryRunMessageSchema_def exampleMessageSchema_def exampleSchema_def z_object_def)

lemma example_trace:
  "fst (snd (dryRunWith exampleSchema exampleEnv exampleArgs [])) =
     [ReadState (Obj [''processId'' \<mapsto> Str ''process-1'', ''to'' \<mapsto> Undefined,
                      ''ordinate'' \<mapsto> Str ''undefined'', ''cron'' \<mapsto> Undefined,
                      ''exact'' \<mapsto> Bool True]) (Inr (exampleReadStateRes [])),
      LoadModule (exampleReadStateRes [])
        (Inr (Obj ((own (exampleReadStateRes []))(''module'' \<mapsto> Str ''wasm'')))),
      Evaluate (evaluateArg exampleSchema exampleArgs (exampleReadStateRes [])
                  (Obj ((own (exampleReadStateRes []))(''module'' \<mapsto> Str ''wasm''))))
        (fst (exampleEvaluate (evaluateArg exampleSchema exampleArgs (exampleReadStateRes [])
                  (Obj ((own (exampleReadStateRes []))(''module'' \<mapsto> Str ''wasm'')))) []))]"
  unfolding dryRunWith_run front_run tail_run
  by (simp add: exampleEnv_def exampleArgs_def exampleReadStateRes_def lookup_def
        split: prod.splits)


section \<open>The point that \<open>readState\<close> is asked for\<close>

text \<open>
  C4. With a \<open>messageTxId\<close>, \<open>readState\<close> is called with \<open>exact\<close> true, \<open>cron\<close>
  undefined, \<open>to\<close> the timestamp and \<open>ordinate\<close> the nonce (as a string) of the
  metadata; that is lemma \<open>front_run\<close>. Without one it should be called with \<open>to\<close>
  and \<open>ordinate\<close> undefined, and the code prepares an object that says so, but it
  then reads \<open>timestamp\<close> and \<open>nonce\<close>, which that object does not have, and puts
  the nonce in a template literal: on the concrete call without \<open>messageTxId\<close>, the
  first call is \<open>readState\<close> with the ordinate \<open>'undefined'\<close>, a string.
\<close>

theorem readState_ordinate_without_messageTxId:
  "messageTxId exampleArgs = Undefined
   \<and> hd (fst (snd (dryRunWith exampleSchema exampleEnv exampleArgs []))) =
       ReadState (Obj [''processId'' \<mapsto> Str ''process-1'', ''to'' \<mapsto> Undefined,
                       ''ordinate'' \<mapsto> Str ''undefined'', ''cron'' \<mapsto> Undefined,
                       ''exact'' \<mapsto> Bool True]) (Inr (exampleReadStateRes []))"
  unfolding example_trace by (simp add: exampleArgs_def)


section \<open>When the module is loaded\<close>




section \<open>\<open>Id\<close>, \<open>Owner\<close> and \<open>From\<close> of the payload\<close>

text \<open>What \<open>dryRunMessageSchema\<close> is, and that it refuses the three fields.\<close>

lemma zparse_object_issues: "zparse (ZObject sh uk) v = Inl issues \<Longrightarrow> issues \<noteq> []"
  by (auto simp: Let_def split: if_splits)

lemma field_issues_of_failed_field:
  "(k, sch) \<in> set sh \<Longrightarrow> zparse sch (lookup data k) = Inl issues \<Longrightarrow> issues \<noteq> []
     \<Longrightarrow> field_issues (zparse_fields sh data) \<noteq> []"
proof (induction sh)
  case Nil
  then show ?case by simp
next
  case (Cons p sh)
  obtain k' sch' where p: "p = (k', sch')" by (cases p)
  show ?case
  proof (cases "zparse sch' (lookup data k')")
    case (Inl is')
    with Cons p show ?thesis by auto
  next
    case (Inr v)
    with Cons p show ?thesis by auto
  qed
qed

lemma update_mem: "(k, v) \<in> set (AList.update k v al)"
  by (induction al) auto

lemma update_mem_other: "k' \<noteq> k \<Longrightarrow> (k, v) \<in> set al \<Longrightarrow> (k, v) \<in> set (AList.update k' v' al)"
  by (induction al) auto

lemma dryRunMessageSchema_shape:
  assumes "dryRunMessageSchema messageSchema = Some schema"
  obtains sh uk msh muk where
    "schema = ZObject sh uk" "(''message'', ZObject msh muk) \<in> set sh"
    "(''Id'', z_undefined) \<in> set msh" "(''Owner'', z_undefined) \<in> set msh"
    "(''From'', z_undefined) \<in> set msh"
proof -
  from assms obtain message message' where
    m: "shape messageSchema ''message'' = Some message"
    and m': "extendSchema message [(''Id'', z_undefined), (''Owner'', z_undefined), (''From'', z_undefined)]
             = Some message'"
    and s: "extendSchema messageSchema [(''message'', message')] = Some schema"
    by (auto simp: dryRunMessageSchema_def split: Option.bind_splits)
  from m' obtain msh0 muk where message: "message = ZObject msh0 muk"
    by (cases message) auto
  from s obtain sh0 uk where ms: "messageSchema = ZObject sh0 uk"
    by (cases messageSchema) auto
  let ?msh = "AList.update ''From'' z_undefined
               (AList.update ''Owner'' z_undefined (AList.update ''Id'' z_undefined msh0))"
  from m' message have message': "message' = ZObject ?msh muk" by auto
  from s ms message' have schema: "schema = ZObject (AList.update ''message'' (ZObject ?msh muk) sh0) uk"
    by auto
  show ?thesis
  proof (rule that [OF schema])
    show "(''message'', ZObject ?msh muk) \<in> set (AList.update ''message'' (ZObject ?msh muk) sh0)"
      by (rule update_mem)
    show "(''Id'', z_undefined) \<in> set ?msh"
      by (intro update_mem_other update_mem) simp_all
    show "(''Owner'', z_undefined) \<in> set ?msh"
      by (intro update_mem_other update_mem) simp_all
    show "(''From'', z_undefined) \<in> set ?msh"
      by (rule update_mem)
  qed
qed

lemma schema_rejects_identity:
  assumes sch: "dryRunMessageSchema messageSchema = Some schema"
    and k: "k \<in> {''Id'', ''Owner'', ''From''}"
    and set: "lookup msg k \<noteq> Undefined"
  shows "\<exists>issues. parse schema (Obj (rest(''message'' \<mapsto> Obj msg))) = Inl (ZodError issues)"
proof -
  from sch obtain sh uk msh muk where
    schema: "schema = ZObject sh uk" and message: "(''message'', ZObject msh muk) \<in> set sh"
    and ids: "(''Id'', z_undefined) \<in> set msh" "(''Owner'', z_undefined) \<in> set msh"
      "(''From'', z_undefined) \<in> set msh"
    by (rule dryRunMessageSchema_shape)
  from k ids have kin: "(k, z_undefined) \<in> set msh" by auto
  from set have "zparse z_undefined (lookup msg k) = Inl [invalid_type ''undefined'' (lookup msg k)]"
    by (simp add: z_undefined_def)
  with kin have "field_issues (zparse_fields msh msg) \<noteq> []"
    by (rule field_issues_of_failed_field) simp
  then have "zparse (ZObject msh muk) (Obj msg)
      = Inl (field_issues (zparse_fields msh msg) @ unknown_issues muk (map fst msh) msg)"
    by (simp add: Let_def)
  then obtain issues where inner: "zparse (ZObject msh muk) (Obj msg) = Inl issues" ..
  then have "issues \<noteq> []" by (rule zparse_object_issues)
  have l: "lookup (rest(''message'' \<mapsto> Obj msg)) ''message'' = Obj msg"
    by (simp add: lookup_def)
  have "field_issues (zparse_fields sh (rest(''message'' \<mapsto> Obj msg))) \<noteq> []"
  proof (rule field_issues_of_failed_field [OF message])
    show "zparse (ZObject msh muk) (lookup (rest(''message'' \<mapsto> Obj msg)) ''message'') = Inl issues"
      unfolding l by (rule inner)
    show "issues \<noteq> []" by fact
  qed
  then show ?thesis
    by (simp add: schema parse_def Let_def)
qed


lemma get_Inr: "\<not> nullish v \<Longrightarrow> get v k = Inr (propOf k v)"
  by (cases v) (simp_all add: propOf_def)

lemma get_Inr_iff: "get v k = Inr x \<longleftrightarrow> \<not> nullish v \<and> x = propOf k v"
  by (cases v) (auto simp: propOf_def)

text \<open>The message that is handed to the schema, property by property.\<close>

lemma dryRunMessageInput_run:
  assumes "\<not> nullish rs"
  shows "dryRunMessageInput pid payload rs =
     Inr (Obj [
         ''noSave'' \<mapsto> Bool True,
         ''deepHash'' \<mapsto> Undefined,
         ''cron'' \<mapsto> Undefined,
         ''ordinate'' \<mapsto> propOf ''ordinate'' rs,
         ''name'' \<mapsto> Str ''Dry Run Message'',
         ''message'' \<mapsto> Obj ((own payload)(
            ''Id'' \<mapsto> Undefined,
            ''Owner'' \<mapsto> Undefined,
            ''From'' \<mapsto> Undefined,
            ''Target'' \<mapsto> pid,
            ''Timestamp'' \<mapsto> propOf ''from'' rs,
            ''Block-Height'' \<mapsto> propOf ''fromBlockHeight'' rs,
            ''Cron'' \<mapsto> Bool False,
            ''Read-Only'' \<mapsto> Bool True)),
         ''AoGlobal'' \<mapsto> Obj [
            ''Process'' \<mapsto> Obj [''Id'' \<mapsto> pid, ''Owner'' \<mapsto> propOf ''owner'' rs,
                                 ''Tags'' \<mapsto> propOf ''tags'' rs]]])"
  using assms by (simp add: dryRunMessageInput_def get_Inr)


text \<open>The message of the concrete call passes the schema.\<close>

lemma example_message:
  "\<exists>m. dryRunMessage exampleSchema (Str ''process-1'') examplePayload (exampleReadStateRes [])
        = Inr [m]"
  unfolding dryRunMessage_def
  by (simp add: dryRunMessageInput_run exampleReadStateRes_def examplePayload_def exampleSchema_def
      parse_def Let_def unknown_issues_def extras_def z_any_def z_string_def z_undefined_def
      lookup_def propOf_Obj)


text \<open>
  C1 as stated fails: the payload of the concrete call sets \<open>Id\<close> and \<open>Owner\<close>, and
  the call resolves, its last call being the one of \<open>evaluate\<close>.
\<close>

theorem payload_with_identity_fields_is_evaluated:
  "propOf ''Id'' (dryRun exampleArgs) = Str ''forged''
   \<and> \<not> isl (fst (dryRunWith exampleSchema exampleEnv exampleArgs []))
   \<and> is_Evaluate (last (fst (snd (dryRunWith exampleSchema exampleEnv exampleArgs []))))"
proof -
  from example_message obtain m where
    m: "dryRunMessage exampleSchema (Str ''process-1'') examplePayload (exampleReadStateRes [])
        = Inr [m]" ..
  have "\<not> isl (fst (dryRunWith exampleSchema exampleEnv exampleArgs []))"
    unfolding dryRunWith_run front_run tail_run
    using m
    by (simp add: exampleEnv_def exampleArgs_def exampleReadStateRes_def lookup_def
          exampleEvaluate_def propOf_Obj split: prod.splits)
  then show ?thesis
    unfolding example_trace
    by (simp add: exampleArgs_def examplePayload_def propOf_Obj lookup_def)
qed


lemma dryRunMessageInput_mask:
  assumes "\<forall>k. k \<notin> {''Id'', ''Owner'', ''From''} \<longrightarrow> own p1 k = own p2 k"
  shows "dryRunMessageInput pid p1 rs = dryRunMessageInput pid p2 rs"
proof -
  have "(own p1)(''Id'' \<mapsto> Undefined, ''Owner'' \<mapsto> Undefined, ''From'' \<mapsto> Undefined)
      = (own p2)(''Id'' \<mapsto> Undefined, ''Owner'' \<mapsto> Undefined, ''From'' \<mapsto> Undefined)"
    using assms by (intro ext) simp
  then show ?thesis
    by (simp add: dryRunMessageInput_def)
qed


text \<open>
  C8. Two calls of \<open>dryRun\<close> whose payloads differ in \<open>Id\<close>, \<open>Owner\<close> and \<open>From\<close>
  only (every other property is the same) give the same result, make the same calls
  and leave the same state: the three are overwritten before the message is parsed.
\<close>

theorem dryRun_result_independent_of_identity_fields:
  assumes "\<forall>k. k \<notin> {''Id'', ''Owner'', ''From''} \<longrightarrow> own p1 k = own p2 k"
  shows "dryRunWith schema env (a\<lparr>dryRun := p1\<rparr>) s = dryRunWith schema env (a\<lparr>dryRun := p2\<rparr>) s"
proof -
  have 1: "resolvePoint env (a\<lparr>dryRun := p1\<rparr>) = resolvePoint env (a\<lparr>dryRun := p2\<rparr>)"
    by (intro ext) (simp add: resolvePoint_def cong: if_cong)
  have 2: "evaluateDryRun schema env (a\<lparr>dryRun := p1\<rparr>) = evaluateDryRun schema env (a\<lparr>dryRun := p2\<rparr>)"
    using dryRunMessageInput_mask [OF assms]
    by (intro ext) (simp add: evaluateDryRun_def dryRunMessage_def)
  show ?thesis
    by (simp add: dryRunWith_def 1 2)
qed

theorem dryRun_result_independent_of_identity_fields_witness:
  "dryRunWith exampleSchema exampleEnv (exampleArgs\<lparr>dryRun := examplePayload\<rparr>) []
     = dryRunWith exampleSchema exampleEnv
         (exampleArgs\<lparr>dryRun := Obj [''From'' \<mapsto> Str ''nobody'', ''Data'' \<mapsto> Str ''ping'']\<rparr>) []"
proof -
  have h: "\<forall>k. k \<notin> {''Id'', ''Owner'', ''From''} \<longrightarrow>
        own examplePayload k = own (Obj [''From'' \<mapsto> Str ''nobody'', ''Data'' \<mapsto> Str ''ping'']) k"
    by (simp add: examplePayload_def)
  from dryRun_result_independent_of_identity_fields [OF h] show ?thesis .
qed



section \<open>What the Messenger Unit exports\<close>

text \<open>
  C7, as the code has it. The module exports \<open>crankMsgs\<close>, built by \<open>crankMsgsWith\<close>
  from the two operations \<open>processMsg\<close> and \<open>processSpawn\<close> and the logger; its
  only other export is \<open>initMsgs\<close>, so the two operations are not exported.
\<close>

theorem crankMsgs_built_from_private_operations:
  "exports I ''crankMsgs'' =
     Some (crankMsgsWith I [(''processMsg'', processMsg I), (''processSpawn'', processSpawn I),
                            (''logger'', logger I)])
   \<and> dom (exports I) = {''initMsgs'', ''crankMsgs''}"
  by (auto simp: exports_def crankMsgs_def split: if_splits)


text \<open>C7 as stated fails: \<open>processMsg\<close> and \<open>processSpawn\<close> are not among the exports.\<close>

theorem per_effect_operations_not_exported:
  "exports exampleImports ''processMsg'' = None \<and> exports exampleImports ''processSpawn'' = None"
  by (simp add: exports_def)



section \<open>The one message that is evaluated\<close>









section \<open>The module loader of the SDK\<close>





text \<open>What \<open>transactionSchema\<close> accepts is metadata of the form \<open>txMeta\<close>.\<close>

lemma tag_parse:
  "zparse (z_object [(''name'', z_string), (''value'', z_string)]) v = Inr v'
     \<Longrightarrow> \<exists>t. v' = tagObj t"
  by (auto simp: z_object_def z_string_def Let_def unknown_issues_def extras_def tagObj_def
        split: if_splits jsval.splits)

lemma tags_parse:
  "element_issues i (map (zparse (z_object [(''name'', z_string), (''value'', z_string)])) xs) = []
     \<Longrightarrow> \<exists>tags. parsed (map (zparse (z_object [(''name'', z_string), (''value'', z_string)])) xs)
                  = map tagObj tags"
proof (induction xs arbitrary: i)
  case Nil
  show ?case by simp
next
  case (Cons x xs)
  show ?case
  proof (cases "zparse (z_object [(''name'', z_string), (''value'', z_string)]) x")
    case (Inl issues)
    then have "issues \<noteq> []" unfolding z_object_def by (rule zparse_object_issues)
    with Cons.prems Inl show ?thesis by simp
  next
    case (Inr v')
    then obtain t where t: "v' = tagObj t" using tag_parse by blast
    from Cons.prems Inr have "element_issues (Suc i)
        (map (zparse (z_object [(''name'', z_string), (''value'', z_string)])) xs) = []"
      by simp
    from Cons.IH [OF this] obtain tags where
      "parsed (map (zparse (z_object [(''name'', z_string), (''value'', z_string)])) xs)
         = map tagObj tags" ..
    with Inr t have "parsed (map (zparse (z_object [(''name'', z_string), (''value'', z_string)])) (x # xs))
         = map tagObj (t # tags)" by simp
    then show ?thesis ..
  qed
qed


lemma owner_parse:
  "zparse (z_object [(''address'', z_string)]) v = Inr v'
     \<Longrightarrow> \<exists>address. v' = Obj [''address'' \<mapsto> Str address]"
  by (auto simp: z_object_def z_string_def Let_def unknown_issues_def extras_def
        split: if_splits jsval.splits)

lemma array_parse:
  "zparse (z_array element) v = Inr v'
     \<Longrightarrow> \<exists>xs. element_issues 0 (map (zparse element) xs) = []
              \<and> v' = Arr (parsed (map (zparse element) xs))"
  by (auto simp: z_array_def Let_def split: if_splits jsval.splits)

lemma array_issues: "zparse (z_array element) v = Inl issues \<Longrightarrow> issues \<noteq> []"
  by (auto simp: z_array_def Let_def split: if_splits jsval.splits)

lemma transactionSchema_accepts:
  assumes "parse transactionSchema meta = Inr meta'"
  shows "\<exists>address tags. meta' = txMeta address tags"
proof -
  let ?owner = "zparse (z_object [(''address'', z_string)]) (lookup (own meta) ''owner'')"
  let ?tags = "zparse (z_array (z_object [(''name'', z_string), (''value'', z_string)]))
                 (lookup (own meta) ''tags'')"
  from assms have none: "field_issues [(''owner'', ?owner), (''tags'', ?tags)] = []"
    and meta': "meta' = Obj (mergeObject [(''owner'', ?owner), (''tags'', ?tags)] (own meta)
                               Map.empty)"
    unfolding parse_def transactionSchema_def z_object_def [of "[(''owner'', _), _]"]
    by (simp_all add: Let_def extras_def split: if_splits sum.splits)
  obtain ov where ov: "?owner = Inr ov"
  proof (cases ?owner)
    case (Inl issues)
    then have "issues \<noteq> []" unfolding z_object_def by (rule zparse_object_issues)
    with none Inl show ?thesis by simp
  next
    case (Inr ov)
    then show ?thesis by (rule that)
  qed
  obtain tv where tv: "?tags = Inr tv"
  proof (cases ?tags)
    case (Inl issues)
    then have "issues \<noteq> []" by (rule array_issues)
    with none ov Inl show ?thesis by simp
  next
    case (Inr tv)
    then show ?thesis by (rule that)
  qed
  from owner_parse [OF ov] obtain address where a: "ov = Obj [''address'' \<mapsto> Str address]" ..
  from array_parse [OF tv] obtain xs where
    "element_issues 0 (map (zparse (z_object [(''name'', z_string), (''value'', z_string)])) xs) = []"
    and tv': "tv = Arr (parsed (map (zparse (z_object [(''name'', z_string), (''value'', z_string)])) xs))"
    by (elim exE conjE)
  from tags_parse [OF this(1)] tv' obtain tags where t: "tv = Arr (map tagObj tags)"
    by auto
  have "meta' = txMeta address tags"
    unfolding meta' ov tv a t txMeta_def by simp
  then show ?thesis by (intro exI)
qed























section \<open>A payload that sets \<open>Id\<close>, \<open>Owner\<close> or \<open>From\<close>\<close>

text \<open>
  From the result \<open>rs\<close> of \<open>readState\<close> on, when \<open>rs\<close> has a module or the Module
  Loader resolves: the last call is the one of \<open>evaluate\<close>.
\<close>

lemma tail_reaches_evaluate:
  assumes t: "tail schema env a rs s = (r, tB, s')"
    and m: "get rs ''module'' = Inr m"
    and loaded: "truthy m \<or> (\<exists>ctx. LoadModule rs (Inr ctx) \<in> set tB)"
  shows "\<exists>ctx. tB \<noteq> [] \<and> last tB = Evaluate (evaluateArg schema a rs ctx) r"
proof (cases "truthy m")
  case True
  with t m have "tB = [Evaluate (evaluateArg schema a rs rs) r]"
    by (auto simp: tail_run split: prod.splits)
  then show ?thesis by (intro exI [of _ rs]) simp
next
  case False
  obtain y s1 where lm: "loadModule env rs s = (y, s1)"
    by (cases "loadModule env rs s")
  show ?thesis
  proof (cases y)
    case (Inl e)
    with t m False lm have "tB = [LoadModule rs (Inl e)]"
      by (auto simp: tail_run)
    with loaded False show ?thesis by simp
  next
    case (Inr ctx)
    with t m False lm
    have "tB = [LoadModule rs (Inr ctx), Evaluate (evaluateArg schema a rs ctx) r]"
      by (auto simp: tail_run split: prod.splits)
    then show ?thesis by (intro exI [of _ ctx]) simp
  qed
qed

text \<open>
  C1, as the code has it. The schema rejects a message in which \<open>Id\<close>, \<open>Owner\<close> or
  \<open>From\<close> is set. A payload that sets one of them is not rejected for it: in a run in
  which \<open>readState\<close> resolved to \<open>rs\<close>, and \<open>rs\<close> has a module or the Module Loader
  resolved, the last call is the one of \<open>evaluate\<close>, with the stream of the parse of
  the synthetic message, in which the three are undefined; and the run, its result,
  calls and state, is the run for the payload without the three properties.
\<close>

theorem identity_fields_masked_then_evaluated:
  assumes sch: "dryRunMessageSchema messageSchema = Some schema"
    and k: "k \<in> {''Id'', ''Owner'', ''From''}"
    and payload: "dryRun a = Obj payload"
    and set: "lookup payload k \<noteq> Undefined"
    and run: "dryRunWith schema env a s = (r, tr, s')"
    and rs: "ReadState x (Inr rs) \<in> set tr"
    and m: "get rs ''module'' = Inr m"
    and loaded: "truthy m \<or> (\<exists>ctx. LoadModule rs (Inr ctx) \<in> set tr)"
  shows "(\<exists>issues. parse schema (Obj (rest(''message'' \<mapsto> Obj payload))) = Inl (ZodError issues))
       \<and> (\<exists>c res input.
             tr \<noteq> [] \<and> last tr = Evaluate c res
           \<and> propOf ''messages'' c = Readable (thenE (parse schema input) (\<lambda>m. Inr [m]))
           \<and> dryRunMessageInput (processId a) (Obj payload) rs = Inr input
           \<and> path [''message'', ''Id''] input = Undefined
           \<and> path [''message'', ''Owner''] input = Undefined
           \<and> path [''message'', ''From''] input = Undefined)
       \<and> dryRunWith schema env a s
           = dryRunWith schema env
               (a\<lparr>dryRun := Obj (payload(''Id'' := None, ''Owner'' := None, ''From'' := None))\<rparr>) s"
proof (intro conjI)
  from sch k set
  show "\<exists>issues. parse schema (Obj (rest(''message'' \<mapsto> Obj payload))) = Inl (ZodError issues)"
    by (rule schema_rejects_identity)
next
  from run rs obtain tA s1 r' tB where
    f: "front env a s = (Inr rs, tA, s1)"
    and t: "tail schema env a rs s1 = (r', tB, s')"
    and tr: "tr = tA @ tB"
    and tA: "\<forall>c \<in> set tA. is_LoadMessageMeta c \<or> is_ReadState c"
    by (rule run_after_readState)
  from tA have "\<forall>ctx. LoadModule rs (Inr ctx) \<notin> set tA" by auto
  with loaded tr have "truthy m \<or> (\<exists>ctx. LoadModule rs (Inr ctx) \<in> set tB)" by auto
  with t m have "\<exists>ctx. tB \<noteq> [] \<and> last tB = Evaluate (evaluateArg schema a rs ctx) r'"
    by (rule tail_reaches_evaluate)
  then obtain ctx where tB: "tB \<noteq> []"
    and l: "last tB = Evaluate (evaluateArg schema a rs ctx) r'"
    by (elim exE conjE)
  from m have nn: "\<not> nullish rs" by (simp add: get_Inr_iff)
  let ?input = "projr (dryRunMessageInput (processId a) (Obj payload) rs)"
  have input: "dryRunMessageInput (processId a) (Obj payload) rs = Inr ?input"
    by (simp add: dryRunMessageInput_run [OF nn])
  have stream: "dryRunMessage schema (processId a) (dryRun a) rs
      = thenE (parse schema ?input) (\<lambda>m. Inr [m])"
    unfolding dryRunMessage_def payload by (subst input) simp
  have fields:
    "path [''message'', ''Id''] ?input = Undefined"
    "path [''message'', ''Owner''] ?input = Undefined"
    "path [''message'', ''From''] ?input = Undefined"
    by (simp_all add: dryRunMessageInput_run [OF nn] propOf_Obj lookup_def)
  from tB tr have 1: "tr \<noteq> []" by simp
  from tB tr l have 2: "last tr = Evaluate (evaluateArg schema a rs ctx) r'" by simp
  from stream have 3: "propOf ''messages'' (evaluateArg schema a rs ctx)
      = Readable (thenE (parse schema ?input) (\<lambda>m. Inr [m]))"
    by (simp add: propOf_Obj lookup_def)
  show "\<exists>c res input.
             tr \<noteq> [] \<and> last tr = Evaluate c res
           \<and> propOf ''messages'' c = Readable (thenE (parse schema input) (\<lambda>m. Inr [m]))
           \<and> dryRunMessageInput (processId a) (Obj payload) rs = Inr input
           \<and> path [''message'', ''Id''] input = Undefined
           \<and> path [''message'', ''Owner''] input = Undefined
           \<and> path [''message'', ''From''] input = Undefined"
    apply (rule exI [of _ "evaluateArg schema a rs ctx"], rule exI [of _ r'],
        rule exI [of _ ?input])
    apply (intro conjI)
    apply (rule 1 2 3 input fields)+
    done
next
  let ?a = "a\<lparr>dryRun := Obj (payload(''Id'' := None, ''Owner'' := None, ''From'' := None))\<rparr>"
  have mask: "\<forall>k. k \<notin> {''Id'', ''Owner'', ''From''} \<longrightarrow>
      own (dryRun a) k = own (Obj (payload(''Id'' := None, ''Owner'' := None, ''From'' := None))) k"
    by (simp add: payload)
  have 1: "resolvePoint env a = resolvePoint env ?a"
    by (intro ext) (simp add: resolvePoint_def cong: if_cong)
  have 2: "evaluateDryRun schema env a = evaluateDryRun schema env ?a"
    using dryRunMessageInput_mask [OF mask]
    by (intro ext) (simp add: evaluateDryRun_def dryRunMessage_def)
  show "dryRunWith schema env a s = dryRunWith schema env ?a s"
    by (simp add: dryRunWith_def 1 2)
qed

theorem identity_fields_masked_then_evaluated_witness:
  "(\<exists>issues. parse exampleSchema
       (Obj [''message'' \<mapsto> Obj [''Id'' \<mapsto> Str ''forged'', ''Owner'' \<mapsto> Str ''someone'',
                                   ''Data'' \<mapsto> Str ''ping'']]) = Inl (ZodError issues))
 \<and> (\<exists>c res input.
       last (fst (snd (dryRunWith exampleSchema exampleEnv exampleArgs []))) = Evaluate c res
     \<and> propOf ''messages'' c = Readable (thenE (parse exampleSchema input) (\<lambda>m. Inr [m]))
     \<and> dryRunMessageInput (Str ''process-1'') examplePayload (exampleReadStateRes []) = Inr input
     \<and> path [''message'', ''Id''] input = Undefined
     \<and> path [''message'', ''Owner''] input = Undefined)
 \<and> dryRunWith exampleSchema exampleEnv exampleArgs []
     = dryRunWith exampleSchema exampleEnv
         (exampleArgs\<lparr>dryRun := Obj [''Data'' \<mapsto> Str ''ping'']\<rparr>) []"
proof -
  let ?run = "dryRunWith exampleSchema exampleEnv exampleArgs []"
  let ?tr = "fst (snd ?run)"
  let ?payload = "[''Id'' \<mapsto> Str ''forged'', ''Owner'' \<mapsto> Str ''someone'', ''Data'' \<mapsto> Str ''ping'']"
  have k: "''Id'' \<in> {''Id'', ''Owner'', ''From''}" by simp
  have payload: "dryRun exampleArgs = Obj ?payload"
    by (simp add: exampleArgs_def examplePayload_def)
  have set: "lookup ?payload ''Id'' \<noteq> Undefined" by (simp add: lookup_def)
  have run: "?run = (fst ?run, ?tr, snd (snd ?run))" by simp
  have rs: "ReadState (Obj [''processId'' \<mapsto> Str ''process-1'', ''to'' \<mapsto> Undefined,
                      ''ordinate'' \<mapsto> Str ''undefined'', ''cron'' \<mapsto> Undefined,
                      ''exact'' \<mapsto> Bool True]) (Inr (exampleReadStateRes [])) \<in> set ?tr"
    unfolding example_trace by simp
  have m: "get (exampleReadStateRes []) ''module'' = Inr Undefined"
    by (simp add: exampleReadStateRes_def lookup_def)
  have loaded: "truthy Undefined \<or> (\<exists>ctx. LoadModule (exampleReadStateRes []) (Inr ctx) \<in> set ?tr)"
    unfolding example_trace by simp
  have clean: "?payload(''Id'' := None, ''Owner'' := None, ''From'' := None) = [''Data'' \<mapsto> Str ''ping'']"
    by (auto simp: fun_eq_iff)
  have pid: "processId exampleArgs = Str ''process-1''" by (simp add: exampleArgs_def)
  from identity_fields_masked_then_evaluated
    [OF exampleSchema k payload set run rs m loaded, of Map.empty]
  show ?thesis
    unfolding clean pid examplePayload_def
    by (elim conjE exE, intro conjI) blast+
qed

section \<open>What \<open>dryRun\<close> returns and what it leaves behind\<close>



























end
